theory Spec2Isabelle
  imports Complex_Main "HOL-Library.Signed_Division"
begin

section \<open>Time\<close>

text \<open>
  A \<open>time.Time\<close> is an instant on one timeline, counted in nanoseconds from
  the zero \<open>time.Time\<close> (midnight UTC of 1 January of year 1, the value of a
  \<open>lastUpdate\<close> field that was never assigned); a \<open>time.Duration\<close> is a number
  of nanoseconds. \<open>Add\<close> and \<open>After\<close> are the two methods of \<open>time.Time\<close> the
  program calls on instants; the instants of the program are far from the ends of
  the range of \<open>time.Time\<close>, and the wall clock and the monotonic clock are not
  told apart.
\<close>

type_synonym Time = int
type_synonym Duration = int

definition Second :: Duration where
  "Second = 1000000000"

definition Hour :: Duration where
  "Hour = 3600 * Second"

definition Add :: "Time \<Rightarrow> Duration \<Rightarrow> Time" where
  "Add t d = t + d"

definition After :: "Time \<Rightarrow> Time \<Rightarrow> bool" where
  "After t u = (u < t)"

definition zeroTime :: Time where
  "zeroTime = 0"

text \<open>
  \<open>time.Month\<close>: the value of \<open>now.Month()\<close> is one of the twelve months, so the
  inner \<open>default\<close> branch of \<open>shouldUpdate\<close> has no month left to match.
\<close>

datatype Month = January | February | March | April | May | June | July
  | August | September | October | November | December

text \<open>
  The calendar methods \<open>Year()\<close> and \<open>Month()\<close> of \<open>time.Time\<close> belong to the
  standard library and depend on the process's time zone: they are taken as
  parameters.
\<close>

record calendar =
  Year :: "Time \<Rightarrow> int"
  MonthOf :: "Time \<Rightarrow> Month"

section \<open>Leap years\<close>

text \<open>\<open>isLeapYear\<close>; Go's \<open>%\<close> is the truncating remainder \<open>smod\<close>.\<close>

definition isLeapYear :: "int \<Rightarrow> bool" where
  "isLeapYear year =
     (if year smod 4 = 0 then
        (if year smod 100 = 0 then
           (if year smod 400 = 0 then True else False)
         else True)
      else False)"

section \<open>The cached series and its freshness check\<close>

text \<open>
  \<open>collectorSeries\<close>. The \<open>desc\<close> field is the same descriptor for every series
  (built once in \<open>NewFredCollector\<close>) and is left out. The type \<open>'v\<close> stands for
  \<open>float64\<close>: the program only parses, stores and copies such values.
\<close>

record 'v collectorSeries =
  title :: string
  lastUpdate :: Time
  val :: 'v
  frequency :: string

text \<open>\<open>shouldUpdate\<close>, with the reading of \<open>time.Now()\<close> as the argument \<open>now\<close>.\<close>

definition shouldUpdate :: "calendar \<Rightarrow> 'v collectorSeries \<Rightarrow> Time \<Rightarrow> bool" where
  "shouldUpdate cal cs now =
     (if frequency cs \<in> set [''d'', ''D'', ''Daily''] then
        After now (Add (lastUpdate cs) (24 * Hour))
      else if frequency cs \<in> set [''w'', ''W'', ''Weekly''] then
        After now (Add (lastUpdate cs) (7 * 24 * Hour))
      else if frequency cs \<in> set [''bw'', ''BW'', ''Biweekly''] then
        After now (Add (lastUpdate cs) (14 * 24 * Hour))
      else if frequency cs \<in> set [''m'', ''M'', ''Monthly''] then
        (if MonthOf cal now \<in> set [January, March, May, July, August, October, December] then
           After now (Add (lastUpdate cs) (31 * 24 * Hour))
         else if MonthOf cal now \<in> set [April, June, September, November] then
           After now (Add (lastUpdate cs) (30 * 24 * Hour))
         else
           (if isLeapYear (Year cal now) then
              After now (Add (lastUpdate cs) (28 * 24 * Hour))
            else
              After now (Add (lastUpdate cs) (29 * 24 * Hour))))
      else if frequency cs \<in> set [''q'', ''Q'', ''Quarterly''] then
        After now (Add (lastUpdate cs) (91 * 24 * Hour))
      else if frequency cs \<in> set [''sa'', ''SA'', ''Semiannual''] then
        After now (Add (lastUpdate cs) (182 * 24 * Hour))
      else if frequency cs \<in> set [''a'', ''A'', ''Annual''] then
        After now (Add (lastUpdate cs) (365 * 24 * Hour))
      else True)"

subsection \<open>The threshold table of the specification\<close>

text \<open>
  The frequency codes of the specification, and the reading of a frequency string
  as one of them (the case labels of \<open>shouldUpdate\<close>).
\<close>

datatype Frequency = Daily | Weekly | Biweekly | Monthly | Quarterly
  | Semiannual | Annual | Unknown

definition frequencyCode :: "string \<Rightarrow> Frequency" where
  "frequencyCode f =
     (if f \<in> set [''d'', ''D'', ''Daily''] then Daily
      else if f \<in> set [''w'', ''W'', ''Weekly''] then Weekly
      else if f \<in> set [''bw'', ''BW'', ''Biweekly''] then Biweekly
      else if f \<in> set [''m'', ''M'', ''Monthly''] then Monthly
      else if f \<in> set [''q'', ''Q'', ''Quarterly''] then Quarterly
      else if f \<in> set [''sa'', ''SA'', ''Semiannual''] then Semiannual
      else if f \<in> set [''a'', ''A'', ''Annual''] then Annual
      else Unknown)"

definition Day :: Duration where
  "Day = 24 * Hour"

text \<open>The proleptic Gregorian rule, in the specification's words.\<close>

definition gregorianLeap :: "int \<Rightarrow> bool" where
  "gregorianLeap y = (4 dvd y \<and> (\<not> 100 dvd y \<or> 400 dvd y))"

text \<open>
  The table of section 4.3 of the specification, row by row: the threshold of a
  frequency code in the current month and year; \<open>None\<close> is "always stale".
\<close>

fun specThreshold :: "Frequency \<Rightarrow> Month \<Rightarrow> int \<Rightarrow> Duration option" where
  "specThreshold Daily m y = Some (1 * Day)"
| "specThreshold Weekly m y = Some (7 * Day)"
| "specThreshold Biweekly m y = Some (14 * Day)"
| "specThreshold Monthly m y =
     (if m = February then (if gregorianLeap y then Some (28 * Day) else Some (29 * Day))
      else if m \<in> set [April, June, September, November] then Some (30 * Day)
      else Some (31 * Day))"
| "specThreshold Quarterly m y = Some (91 * Day)"
| "specThreshold Semiannual m y = Some (182 * Day)"
| "specThreshold Annual m y = Some (365 * Day)"
| "specThreshold Unknown m y = None"

text \<open>
  The decision of the specification: stale when more than the threshold has
  elapsed (at the threshold: not yet stale).
\<close>

definition specStale :: "Frequency \<Rightarrow> Month \<Rightarrow> int \<Rightarrow> Time \<Rightarrow> Time \<Rightarrow> bool" where
  "specStale f m y lastRefresh now =
     (case specThreshold f m y of
        None \<Rightarrow> True
      | Some thr \<Rightarrow> thr < now - lastRefresh)"

subsection \<open>A concrete calendar\<close>

text \<open>
  The calendar of a process whose time zone is UTC, for evaluating the freshness
  check at concrete instants: the instant 0 is midnight of 1 January of year 1,
  and years and months are those of the proleptic Gregorian calendar. The day
  count is shifted to start on 1 March of year 0, so that a leap day is the last
  day of its shifted year, and split into 400-year cycles of 146097 days.
\<close>

definition civilDate :: "int \<Rightarrow> int \<times> int" where
  "civilDate days =
     (let shifted = days + 306;
          cycle = shifted div 146097;
          dayOfCycle = shifted mod 146097;
          yearOfCycle = (dayOfCycle - dayOfCycle div 1460 + dayOfCycle div 36524
                           - dayOfCycle div 146096) div 365;
          dayOfYear = dayOfCycle - (365 * yearOfCycle + yearOfCycle div 4 - yearOfCycle div 100);
          shiftedMonth = (5 * dayOfYear + 2) div 153;
          month = (if shiftedMonth < 10 then shiftedMonth + 3 else shiftedMonth - 9);
          year = yearOfCycle + 400 * cycle + (if month \<le> 2 then 1 else 0)
      in (year, month))"

definition monthNumbered :: "int \<Rightarrow> Month" where
  "monthNumbered n =
     (if n = 1 then January else if n = 2 then February else if n = 3 then March
      else if n = 4 then April else if n = 5 then May else if n = 6 then June
      else if n = 7 then July else if n = 8 then August else if n = 9 then September
      else if n = 10 then October else if n = 11 then November else December)"

definition utc :: calendar where
  "utc = \<lparr> Year = (\<lambda>t. fst (civilDate (t div (24 * Hour)))),
           MonthOf = (\<lambda>t. monthNumbered (snd (civilDate (t div (24 * Hour))))) \<rparr>"

section \<open>Errors\<close>

text \<open>
  The errors the program meets: a failed HTTP exchange (\<open>client.Do\<close>,
  \<open>io.ReadAll\<close>), the two errors of \<open>encoding/json\<close>, the error of
  \<open>time.Parse\<close>, the error of \<open>strconv.ParseFloat\<close>, and the errors of
  \<open>rate.Limiter.Wait\<close>: the context was cancelled, its deadline has passed, or
  the wait would last beyond its deadline.
\<close>

datatype error = TransportError | SyntaxError | UnmarshalTypeError | ParseError | NumError
  | Canceled | DeadlineExceeded | WouldExceedDeadline

section \<open>Decoding JSON into a struct\<close>

text \<open>
  A syntactically valid JSON text. A number literal without fraction and exponent
  is \<open>JInt\<close> with its value, any other number literal is \<open>JFloat\<close> with its
  text. Strings are byte strings (UTF-8).
\<close>

datatype json = JNull | JBool bool | JInt int | JFloat string | JString string
  | JArray "json list" | JObject "(string \<times> json) list"

text \<open>
  A field of a struct declaration, as \<open>encoding/json\<close> sees it: the Go name,
  the name in the \<open>json\<close> tag (empty when there is no tag) and the kind of its
  type. The structs of the program have string fields, \<open>int\<close> fields and
  slices of pointers to a type with its own \<open>UnmarshalJSON\<close>.
\<close>

datatype kind = KString | KInt | KSlice

record field =
  goName :: string
  jsonTag :: string
  fieldKind :: kind

definition jsonName :: "field \<Rightarrow> string" where
  "jsonName f = (if jsonTag f = [] then goName f else jsonTag f)"

definition tagged :: "field \<Rightarrow> bool" where
  "tagged f = (jsonTag f \<noteq> [])"

text \<open>
  The field table of \<open>encoding/json\<close> for a struct without embedded structs.
  Among the fields with one JSON name, a single tagged field wins over untagged
  ones; two fields of the same name that are both tagged (or both untagged) are
  in conflict, and then none of the fields of that name is kept, without an
  error. The kept fields stay in declaration order.
\<close>

definition dominantField :: "field list \<Rightarrow> field \<Rightarrow> bool" where
  "dominantField fs f =
     (let sameName = filter (\<lambda>g. jsonName g = jsonName f) fs
      in if tagged f then length (filter tagged sameName) = 1
         else length sameName = 1)"

definition typeFields :: "field list \<Rightarrow> field list" where
  "typeFields fs = filter (dominantField fs) fs"

text \<open>
  An object key selects the field of exactly that name or, failing that, the first
  field whose name equals the key under case folding. For the ASCII field names of
  the program, folding identifies the two cases of a letter, the Kelvin sign
  (bytes E2 84 AA) with \<open>k\<close>, and the long s (bytes C5 BF) with \<open>s\<close>.
\<close>

definition isLetter :: "char \<Rightarrow> bool" where
  "isLetter c = (let n = (of_char c :: nat) in (65 \<le> n \<and> n \<le> 90) \<or> (97 \<le> n \<and> n \<le> 122))"

definition upperCase :: "char \<Rightarrow> char" where
  "upperCase c = (let n = (of_char c :: nat) in if 97 \<le> n \<and> n \<le> 122 then char_of (n - 32) else c)"

definition lowerCase :: "char \<Rightarrow> char" where
  "lowerCase c = (let n = (of_char c :: nat) in if 65 \<le> n \<and> n \<le> 90 then char_of (n + 32) else c)"

fun equalFold :: "string \<Rightarrow> string \<Rightarrow> bool" where
  "equalFold [] t = (t = [])"
| "equalFold (sb # s) [] = False"
| "equalFold (sb # s) (tb # t) =
     (if (of_char tb :: nat) < 128 then
        (sb = tb \<or> (isLetter sb \<and> upperCase sb = upperCase tb)) \<and> equalFold s t
      else if sb \<in> set ''sS'' then
        (tb = CHR 0xC5 \<and> take 1 t = [CHR 0xBF]) \<and> equalFold s (drop 1 t)
      else if sb \<in> set ''kK'' then
        (tb = CHR 0xE2 \<and> take 2 t = [CHR 0x84, CHR 0xAA]) \<and> equalFold s (drop 2 t)
      else False)"

definition lookupField :: "field list \<Rightarrow> string \<Rightarrow> field option" where
  "lookupField fs key =
     (case find (\<lambda>f. jsonName f = key) fs of
        Some f \<Rightarrow> Some f
      | None \<Rightarrow> find (\<lambda>f. equalFold (jsonName f) key) fs)"

text \<open>
  The value of a struct being decoded: its fields by Go name; a field that is not
  there has the zero value of its type (the empty string, 0, the nil slice). An
  element of a slice of pointers is \<open>None\<close> for a nil pointer.
\<close>

datatype 'e goval = GoString string | GoInt int | GoSlice "'e option list"

type_synonym 'e gostruct = "string \<Rightarrow> 'e goval option"

definition getString :: "'e gostruct \<Rightarrow> string \<Rightarrow> string" where
  "getString s n = (case s n of Some (GoString x) \<Rightarrow> x | _ \<Rightarrow> [])"

definition getInt :: "'e gostruct \<Rightarrow> string \<Rightarrow> int" where
  "getInt s n = (case s n of Some (GoInt x) \<Rightarrow> x | _ \<Rightarrow> 0)"

definition getSlice :: "'e gostruct \<Rightarrow> string \<Rightarrow> 'e option list" where
  "getSlice s n = (case s n of Some (GoSlice x) \<Rightarrow> x | _ \<Rightarrow> [])"

text \<open>
  Storing a JSON value into a field. \<open>null\<close> leaves a string or an \<open>int\<close> as it
  is and makes a slice nil. A value of the wrong type is an
  \<open>UnmarshalTypeError\<close> that the decoder remembers while it goes on. The
  elements of an array are decoded by the \<open>UnmarshalJSON\<close> of the element type
  (\<open>elem\<close>), a \<open>null\<close> element is a nil pointer, and an error of \<open>elem\<close> ends
  the decoding at once. A key that names a slice field is taken to occur once in
  an object: every element is decoded into a new zero value.
\<close>

datatype 'e stored = Assign "'e goval" | Ignore | TypeMismatch | Failed error

fun decodeElements :: "(json \<Rightarrow> error + 'e) \<Rightarrow> json list \<Rightarrow> error + 'e option list" where
  "decodeElements elem [] = Inr []"
| "decodeElements elem (x # xs) =
     (if x = JNull then
        (case decodeElements elem xs of
           Inl e \<Rightarrow> Inl e
         | Inr ps \<Rightarrow> Inr (None # ps))
      else
        (case elem x of
           Inl e \<Rightarrow> Inl e
         | Inr p \<Rightarrow>
             (case decodeElements elem xs of
                Inl e \<Rightarrow> Inl e
              | Inr ps \<Rightarrow> Inr (Some p # ps))))"

definition store :: "(json \<Rightarrow> error + 'e) \<Rightarrow> kind \<Rightarrow> json \<Rightarrow> 'e stored" where
  "store elem k v =
     (case k of
        KString \<Rightarrow>
          (case v of JString s \<Rightarrow> Assign (GoString s) | JNull \<Rightarrow> Ignore | _ \<Rightarrow> TypeMismatch)
      | KInt \<Rightarrow>
          (case v of
             JInt n \<Rightarrow>
               (if - (2 ^ 63) \<le> n \<and> n < 2 ^ 63 then Assign (GoInt n) else TypeMismatch)
           | JNull \<Rightarrow> Ignore
           | _ \<Rightarrow> TypeMismatch)
      | KSlice \<Rightarrow>
          (case v of
             JArray xs \<Rightarrow>
               (case decodeElements elem xs of
                  Inl e \<Rightarrow> Failed e
                | Inr ps \<Rightarrow> Assign (GoSlice ps))
           | JNull \<Rightarrow> Assign (GoSlice [])
           | _ \<Rightarrow> TypeMismatch))"

text \<open>
  The members of an object in turn, with the struct so far and the first
  remembered error. A key without a field is skipped.
\<close>

fun object :: "(json \<Rightarrow> error + 'e) \<Rightarrow> field list \<Rightarrow> (string \<times> json) list
    \<Rightarrow> 'e gostruct \<times> error option \<Rightarrow> error + ('e gostruct \<times> error option)" where
  "object elem fs [] st = Inr st"
| "object elem fs ((key, v) # members) (s, saved) =
     (case lookupField fs key of
        None \<Rightarrow> object elem fs members (s, saved)
      | Some f \<Rightarrow>
          (case store elem (fieldKind f) v of
             Failed e \<Rightarrow> Inl e
           | TypeMismatch \<Rightarrow>
               object elem fs members
                 (s, if saved = None then Some UnmarshalTypeError else saved)
           | Ignore \<Rightarrow> object elem fs members (s, saved)
           | Assign x \<Rightarrow> object elem fs members (s(goName f \<mapsto> x), saved)))"

text \<open>
  \<open>json.Unmarshal\<close> of a valid JSON text into a zero struct with the declared
  fields \<open>fs\<close>: \<open>null\<close> leaves the struct as it is, anything but an object is a
  type error, and a remembered error is returned at the end.
\<close>

definition Unmarshal :: "(json \<Rightarrow> error + 'e) \<Rightarrow> field list \<Rightarrow> json \<Rightarrow> error + 'e gostruct" where
  "Unmarshal elem fs b =
     (case b of
        JObject members \<Rightarrow>
          (case object elem (typeFields fs) members (Map.empty, None) of
             Inl e \<Rightarrow> Inl e
           | Inr (s, Some e) \<Rightarrow> Inl e
           | Inr (s, None) \<Rightarrow> Inr s)
      | JNull \<Rightarrow> Inr Map.empty
      | _ \<Rightarrow> Inl UnmarshalTypeError)"


section \<open>The responses of the provider\<close>

text \<open>
  \<open>time.Parse\<close> (layout, then text) and \<open>strconv.ParseFloat\<close> (at 64 bits)
  belong to the standard library: they are parameters of the decoding functions.
\<close>

record 'v library =
  timeParse :: "string \<Rightarrow> string \<Rightarrow> error + Time"
  ParseFloat :: "string \<Rightarrow> error + 'v"

text \<open>\<open>if err != nil { return err }\<close>\<close>

definition unlessErr :: "error + 'a \<Rightarrow> ('a \<Rightarrow> error + 'b) \<Rightarrow> error + 'b" where
  "unlessErr r k = (case r of Inl e \<Rightarrow> Inl e | Inr x \<Rightarrow> k x)"

text \<open>
  \<open>if s != "" { t, err := time.Parse(layout, s); if err != nil { return err }; field = t }\<close>:
  the new value of the field.
\<close>

definition parseIfSet :: "'v library \<Rightarrow> string \<Rightarrow> string \<Rightarrow> Time \<Rightarrow> error + Time" where
  "parseIfSet lib layout s old = (if s \<noteq> [] then timeParse lib layout s else Inr old)"

subsection \<open>Observations\<close>

record 'v Observation =
  o_RealtimeStart :: Time
  o_RealtimeEnd :: Time
  o_Date :: Time
  o_Value :: 'v

definition zeroObservation :: "'v::zero Observation" where
  "zeroObservation =
     \<lparr>o_RealtimeStart = zeroTime, o_RealtimeEnd = zeroTime, o_Date = zeroTime, o_Value = 0\<rparr>"

text \<open>The struct \<open>s\<close> that \<open>Observation.UnmarshalJSON\<close> decodes into.\<close>

definition Observation_s :: "field list" where
  "Observation_s =
     [\<lparr>goName = ''RealtimeStart'', jsonTag = ''realtime_start'', fieldKind = KString\<rparr>,
      \<lparr>goName = ''RealtimeEnd'', jsonTag = ''realtime_end'', fieldKind = KString\<rparr>,
      \<lparr>goName = ''Date'', jsonTag = ''date'', fieldKind = KString\<rparr>,
      \<lparr>goName = ''Value'', jsonTag = ''value'', fieldKind = KString\<rparr>]"

text \<open>A struct without slice fields has no elements to decode.\<close>

definition noElements :: "json \<Rightarrow> error + unit" where
  "noElements x = Inl UnmarshalTypeError"

text \<open>
  \<open>Observation.UnmarshalJSON\<close>, on the observation \<open>ob\<close> it is called on and the
  JSON text \<open>b\<close>. On the value \<open>"."\<close> it returns before \<open>o.Value\<close> is assigned.
\<close>

definition Observation_UnmarshalJSON ::
    "'v library \<Rightarrow> 'v Observation \<Rightarrow> json \<Rightarrow> error + 'v Observation" where
  "Observation_UnmarshalJSON lib ob b =
     unlessErr (Unmarshal noElements Observation_s b) (\<lambda>s.
     unlessErr (timeParse lib ''2006-01-02'' (getString s ''RealtimeStart'')) (\<lambda>t1.
     unlessErr (timeParse lib ''2006-01-02'' (getString s ''RealtimeEnd'')) (\<lambda>t2.
     unlessErr (timeParse lib ''2006-01-02'' (getString s ''Date'')) (\<lambda>t3.
       if getString s ''Value'' = ''.'' then
         Inr (ob\<lparr>o_RealtimeStart := t1, o_RealtimeEnd := t2, o_Date := t3\<rparr>)
       else
         unlessErr (ParseFloat lib (getString s ''Value'')) (\<lambda>f.
           Inr (ob\<lparr>o_RealtimeStart := t1, o_RealtimeEnd := t2, o_Date := t3,
                     o_Value := f\<rparr>))))))"

subsection \<open>The series response\<close>

record 'v SeriesResponse =
  r_RealtimeStart :: Time
  r_RealtimeEnd :: Time
  r_ObservationStart :: Time
  r_ObservationEnd :: Time
  r_Units :: string
  r_OutputType :: int
  r_FileType :: string
  r_OrderBy :: string
  r_SortOrder :: string
  r_Count :: int
  r_Offset :: int
  r_Limit :: int
  r_ErrorCode :: int
  r_Error :: string
  r_Observations :: "'v Observation option list"

definition zeroSeriesResponse :: "'v SeriesResponse" where
  "zeroSeriesResponse =
     \<lparr>r_RealtimeStart = zeroTime, r_RealtimeEnd = zeroTime, r_ObservationStart = zeroTime,
      r_ObservationEnd = zeroTime, r_Units = [], r_OutputType = 0, r_FileType = [],
      r_OrderBy = [], r_SortOrder = [], r_Count = 0, r_Offset = 0, r_Limit = 0,
      r_ErrorCode = 0, r_Error = [], r_Observations = []\<rparr>"

text \<open>
  The struct \<open>s\<close> that \<open>SeriesResponse.UnmarshalJSON\<close> decodes into: the fields
  \<open>ErrorCode\<close> and \<open>Error\<close> carry the same tag.
\<close>

definition SeriesResponse_s :: "field list" where
  "SeriesResponse_s =
     [\<lparr>goName = ''RealtimeStart'', jsonTag = ''realtime_start'', fieldKind = KString\<rparr>,
      \<lparr>goName = ''RealtimeEnd'', jsonTag = ''realtime_end'', fieldKind = KString\<rparr>,
      \<lparr>goName = ''ObservationStart'', jsonTag = ''observation_start'', fieldKind = KString\<rparr>,
      \<lparr>goName = ''ObservationEnd'', jsonTag = ''observation_end'', fieldKind = KString\<rparr>,
      \<lparr>goName = ''Units'', jsonTag = ''units'', fieldKind = KString\<rparr>,
      \<lparr>goName = ''OutputType'', jsonTag = ''output_type'', fieldKind = KInt\<rparr>,
      \<lparr>goName = ''FileType'', jsonTag = ''file_type'', fieldKind = KString\<rparr>,
      \<lparr>goName = ''OrderBy'', jsonTag = ''order_by'', fieldKind = KString\<rparr>,
      \<lparr>goName = ''SortOrder'', jsonTag = ''sort_order'', fieldKind = KString\<rparr>,
      \<lparr>goName = ''Count'', jsonTag = ''count'', fieldKind = KInt\<rparr>,
      \<lparr>goName = ''Offset'', jsonTag = ''offset'', fieldKind = KInt\<rparr>,
      \<lparr>goName = ''Limit'', jsonTag = ''limit'', fieldKind = KInt\<rparr>,
      \<lparr>goName = ''ErrorCode'', jsonTag = ''error_code'', fieldKind = KInt\<rparr>,
      \<lparr>goName = ''Error'', jsonTag = ''error_code'', fieldKind = KString\<rparr>,
      \<lparr>goName = ''Observations'', jsonTag = ''observations'', fieldKind = KSlice\<rparr>]"

text \<open>
  The declaration of \<open>SeriesResponse\<close> itself (its tags are not consulted by the
  decoder, which calls the method \<open>UnmarshalJSON\<close> of the type).
\<close>

definition SeriesResponse_decl :: "field list" where
  "SeriesResponse_decl =
     [\<lparr>goName = ''RealtimeStart'', jsonTag = ''realtime_start'', fieldKind = KString\<rparr>,
      \<lparr>goName = ''RealtimeEnd'', jsonTag = ''realtime_end'', fieldKind = KString\<rparr>,
      \<lparr>goName = ''ObservationStart'', jsonTag = ''observation_start'', fieldKind = KString\<rparr>,
      \<lparr>goName = ''ObservationEnd'', jsonTag = ''observation_end'', fieldKind = KString\<rparr>,
      \<lparr>goName = ''Units'', jsonTag = ''units'', fieldKind = KString\<rparr>,
      \<lparr>goName = ''OutputType'', jsonTag = ''output_type'', fieldKind = KInt\<rparr>,
      \<lparr>goName = ''FileType'', jsonTag = ''file_type'', fieldKind = KString\<rparr>,
      \<lparr>goName = ''OrderBy'', jsonTag = ''order_by'', fieldKind = KString\<rparr>,
      \<lparr>goName = ''SortOrder'', jsonTag = ''sort_order'', fieldKind = KString\<rparr>,
      \<lparr>goName = ''Count'', jsonTag = ''count'', fieldKind = KInt\<rparr>,
      \<lparr>goName = ''Offset'', jsonTag = ''offset'', fieldKind = KInt\<rparr>,
      \<lparr>goName = ''Limit'', jsonTag = ''limit'', fieldKind = KInt\<rparr>,
      \<lparr>goName = ''ErrorCode'', jsonTag = ''error_code'', fieldKind = KInt\<rparr>,
      \<lparr>goName = ''Error'', jsonTag = ''error_code'', fieldKind = KString\<rparr>,
      \<lparr>goName = ''Observations'', jsonTag = [], fieldKind = KSlice\<rparr>]"

text \<open>\<open>SeriesResponse.UnmarshalJSON\<close>, on the response \<open>r\<close> it is called on.\<close>

definition SeriesResponse_UnmarshalJSON ::
    "'v::zero library \<Rightarrow> 'v SeriesResponse \<Rightarrow> json \<Rightarrow> error + 'v SeriesResponse" where
  "SeriesResponse_UnmarshalJSON lib r b =
     unlessErr (Unmarshal (Observation_UnmarshalJSON lib zeroObservation) SeriesResponse_s b) (\<lambda>s.
     unlessErr (parseIfSet lib ''2006-01-02'' (getString s ''RealtimeStart'') (r_RealtimeStart r)) (\<lambda>t1.
     unlessErr (parseIfSet lib ''2006-01-02'' (getString s ''RealtimeEnd'') (r_RealtimeEnd r)) (\<lambda>t2.
     unlessErr (parseIfSet lib ''2006-01-02'' (getString s ''ObservationStart'') (r_ObservationStart r)) (\<lambda>t3.
     unlessErr (parseIfSet lib ''2006-01-02'' (getString s ''ObservationEnd'') (r_ObservationEnd r)) (\<lambda>t4.
       Inr \<lparr>r_RealtimeStart = t1, r_RealtimeEnd = t2, r_ObservationStart = t3,
            r_ObservationEnd = t4,
            r_Units = getString s ''Units'',
            r_OutputType = getInt s ''OutputType'',
            r_FileType = getString s ''FileType'',
            r_OrderBy = getString s ''OrderBy'',
            r_SortOrder = getString s ''SortOrder'',
            r_Count = getInt s ''Count'',
            r_Offset = getInt s ''Offset'',
            r_Limit = getInt s ''Limit'',
            r_ErrorCode = getInt s ''ErrorCode'',
            r_Error = getString s ''Error'',
            r_Observations = getSlice s ''Observations''\<rparr>)))))"


subsection \<open>The metadata response\<close>

record SeriesMetadata =
  sm_ID :: string
  sm_RealtimeStart :: Time
  sm_RealtimeEnd :: Time
  sm_Title :: string
  sm_ObservationStart :: Time
  sm_ObservationEnd :: Time
  sm_Frequency :: string
  sm_FrequencyShort :: string
  sm_Units :: string
  sm_UnitsShort :: string
  sm_SeasonalAdjustment :: string
  sm_SeasonalAdjustmentShort :: string
  sm_LastUpdated :: Time
  sm_Popularity :: int
  sm_Notes :: string
  sm_ErrorCode :: int
  sm_Error :: string

definition zeroSeriesMetadata :: SeriesMetadata where
  "zeroSeriesMetadata =
     \<lparr>sm_ID = [], sm_RealtimeStart = zeroTime, sm_RealtimeEnd = zeroTime, sm_Title = [],
      sm_ObservationStart = zeroTime, sm_ObservationEnd = zeroTime, sm_Frequency = [],
      sm_FrequencyShort = [], sm_Units = [], sm_UnitsShort = [], sm_SeasonalAdjustment = [],
      sm_SeasonalAdjustmentShort = [], sm_LastUpdated = zeroTime, sm_Popularity = 0,
      sm_Notes = [], sm_ErrorCode = 0, sm_Error = []\<rparr>"

text \<open>The struct \<open>s\<close> that \<open>SeriesMetadata.UnmarshalJSON\<close> decodes into.\<close>

definition SeriesMetadata_s :: "field list" where
  "SeriesMetadata_s =
     [\<lparr>goName = ''ID'', jsonTag = ''id'', fieldKind = KString\<rparr>,
      \<lparr>goName = ''RealtimeStart'', jsonTag = ''realtime_start'', fieldKind = KString\<rparr>,
      \<lparr>goName = ''RealtimeEnd'', jsonTag = ''realtime_end'', fieldKind = KString\<rparr>,
      \<lparr>goName = ''Title'', jsonTag = ''title'', fieldKind = KString\<rparr>,
      \<lparr>goName = ''ObservationStart'', jsonTag = ''observation_start'', fieldKind = KString\<rparr>,
      \<lparr>goName = ''ObservationEnd'', jsonTag = ''observation_end'', fieldKind = KString\<rparr>,
      \<lparr>goName = ''Frequency'', jsonTag = ''frequency'', fieldKind = KString\<rparr>,
      \<lparr>goName = ''FrequencyShort'', jsonTag = ''frequency_short'', fieldKind = KString\<rparr>,
      \<lparr>goName = ''Units'', jsonTag = ''units'', fieldKind = KString\<rparr>,
      \<lparr>goName = ''UnitsShort'', jsonTag = ''units_short'', fieldKind = KString\<rparr>,
      \<lparr>goName = ''SeasonalAdjustment'', jsonTag = ''seasonal_adjustment'', fieldKind = KString\<rparr>,
      \<lparr>goName = ''SeasonalAdjustmentShort'', jsonTag = ''seasonal_adjustment_short'',
         fieldKind = KString\<rparr>,
      \<lparr>goName = ''LastUpdated'', jsonTag = ''last_updated'', fieldKind = KString\<rparr>,
      \<lparr>goName = ''Popularity'', jsonTag = ''popularity'', fieldKind = KInt\<rparr>,
      \<lparr>goName = ''Notes'', jsonTag = ''notes'', fieldKind = KString\<rparr>,
      \<lparr>goName = ''ErrorCode'', jsonTag = ''error_code'', fieldKind = KInt\<rparr>,
      \<lparr>goName = ''Error'', jsonTag = ''error_code'', fieldKind = KString\<rparr>]"

text \<open>
  \<open>SeriesMetadata.UnmarshalJSON\<close>; the method never assigns \<open>sm.ID\<close>.
\<close>

definition SeriesMetadata_UnmarshalJSON ::
    "'v library \<Rightarrow> SeriesMetadata \<Rightarrow> json \<Rightarrow> error + SeriesMetadata" where
  "SeriesMetadata_UnmarshalJSON lib sm b =
     unlessErr (Unmarshal noElements SeriesMetadata_s b) (\<lambda>s.
     unlessErr (parseIfSet lib ''2006-01-02'' (getString s ''RealtimeStart'') (sm_RealtimeStart sm)) (\<lambda>t1.
     unlessErr (parseIfSet lib ''2006-01-02'' (getString s ''RealtimeEnd'') (sm_RealtimeEnd sm)) (\<lambda>t2.
     unlessErr (parseIfSet lib ''2006-01-02'' (getString s ''ObservationStart'') (sm_ObservationStart sm)) (\<lambda>t3.
     unlessErr (parseIfSet lib ''2006-01-02'' (getString s ''ObservationEnd'') (sm_ObservationEnd sm)) (\<lambda>t4.
     unlessErr (parseIfSet lib ''2006-01-02 15:04:05-07'' (getString s ''LastUpdated'') (sm_LastUpdated sm)) (\<lambda>t5.
       Inr \<lparr>sm_ID = sm_ID sm, sm_RealtimeStart = t1, sm_RealtimeEnd = t2,
            sm_Title = getString s ''Title'',
            sm_ObservationStart = t3, sm_ObservationEnd = t4,
            sm_Frequency = getString s ''Frequency'',
            sm_FrequencyShort = getString s ''FrequencyShort'',
            sm_Units = getString s ''Units'',
            sm_UnitsShort = getString s ''UnitsShort'',
            sm_SeasonalAdjustment = getString s ''SeasonalAdjustment'',
            sm_SeasonalAdjustmentShort = getString s ''SeasonalAdjustmentShort'',
            sm_LastUpdated = t5,
            sm_Popularity = getInt s ''Popularity'',
            sm_Notes = getString s ''Notes'',
            sm_ErrorCode = getInt s ''ErrorCode'',
            sm_Error = getString s ''Error''\<rparr>))))))"

record SeriesMetadataResponse =
  mr_RealtimeStart :: Time
  mr_RealtimeEnd :: Time
  mr_ErrorCode :: int
  mr_Error :: string
  mr_Series :: "SeriesMetadata option list"

definition zeroSeriesMetadataResponse :: SeriesMetadataResponse where
  "zeroSeriesMetadataResponse =
     \<lparr>mr_RealtimeStart = zeroTime, mr_RealtimeEnd = zeroTime, mr_ErrorCode = 0,
      mr_Error = [], mr_Series = []\<rparr>"

text \<open>
  The struct \<open>s\<close> that \<open>SeriesMetadataResponse.UnmarshalJSON\<close> decodes into, and
  the declaration of \<open>SeriesMetadataResponse\<close> itself: in both, \<open>ErrorCode\<close> and
  \<open>Error\<close> carry the same tag.
\<close>

definition SeriesMetadataResponse_s :: "field list" where
  "SeriesMetadataResponse_s =
     [\<lparr>goName = ''RealtimeStart'', jsonTag = ''realtime_start'', fieldKind = KString\<rparr>,
      \<lparr>goName = ''RealtimeEnd'', jsonTag = ''realtime_end'', fieldKind = KString\<rparr>,
      \<lparr>goName = ''ErrorCode'', jsonTag = ''error_code'', fieldKind = KInt\<rparr>,
      \<lparr>goName = ''Error'', jsonTag = ''error_code'', fieldKind = KString\<rparr>,
      \<lparr>goName = ''Series'', jsonTag = ''seriess'', fieldKind = KSlice\<rparr>]"

definition SeriesMetadataResponse_decl :: "field list" where
  "SeriesMetadataResponse_decl =
     [\<lparr>goName = ''RealtimeStart'', jsonTag = [], fieldKind = KString\<rparr>,
      \<lparr>goName = ''RealtimeEnd'', jsonTag = [], fieldKind = KString\<rparr>,
      \<lparr>goName = ''ErrorCode'', jsonTag = ''error_code'', fieldKind = KInt\<rparr>,
      \<lparr>goName = ''Error'', jsonTag = ''error_code'', fieldKind = KString\<rparr>,
      \<lparr>goName = ''Series'', jsonTag = [], fieldKind = KSlice\<rparr>]"

text \<open>\<open>SeriesMetadataResponse.UnmarshalJSON\<close>.\<close>

definition SeriesMetadataResponse_UnmarshalJSON ::
    "'v library \<Rightarrow> SeriesMetadataResponse \<Rightarrow> json \<Rightarrow> error + SeriesMetadataResponse" where
  "SeriesMetadataResponse_UnmarshalJSON lib r b =
     unlessErr (Unmarshal (SeriesMetadata_UnmarshalJSON lib zeroSeriesMetadata)
                  SeriesMetadataResponse_s b) (\<lambda>s.
     unlessErr (parseIfSet lib ''2006-01-02'' (getString s ''RealtimeStart'') (mr_RealtimeStart r)) (\<lambda>t1.
     unlessErr (parseIfSet lib ''2006-01-02'' (getString s ''RealtimeEnd'') (mr_RealtimeEnd r)) (\<lambda>t2.
       Inr \<lparr>mr_RealtimeStart = t1, mr_RealtimeEnd = t2,
            mr_ErrorCode = getInt s ''ErrorCode'',
            mr_Error = getString s ''Error'',
            mr_Series = getSlice s ''Series''\<rparr>)))"

section \<open>Fetching\<close>

text \<open>
  A request to the provider is its path and its query. The exchange
  \<open>c.client.Do(req)\<close> followed by \<open>io.ReadAll(res.Body)\<close> is the parameter
  \<open>Do\<close>: it fails, or it yields the body, which is \<open>None\<close> when it is not a
  JSON text and the JSON value otherwise. The status code of the response is not
  looked at. \<open>http.NewRequest\<close> cannot fail on the constant method and URL.
\<close>

record request =
  url :: string
  query :: "(string \<times> string) list"

type_synonym exchange = "request \<Rightarrow> error + json option"

definition basePath :: string where
  "basePath = ''https://api.stlouisfed.org''"

definition observationsPath :: string where
  "observationsPath = ''fred/series/observations''"

definition seriesMetaPath :: string where
  "seriesMetaPath = ''fred/series''"

text \<open>\<open>getSeries\<close> and \<open>getMeta\<close>: the result is the response or the error.\<close>

definition getSeries :: "'v::zero library \<Rightarrow> exchange \<Rightarrow> string \<Rightarrow> string
    \<Rightarrow> error + 'v SeriesResponse" where
  "getSeries lib Do key name =
     (case Do \<lparr>url = basePath @ ''/'' @ observationsPath,
               query = [(''series_id'', name), (''api_key'', key), (''file_type'', ''json'')]\<rparr> of
        Inl err \<Rightarrow> Inl err
      | Inr None \<Rightarrow> Inl SyntaxError
      | Inr (Some buf) \<Rightarrow> SeriesResponse_UnmarshalJSON lib zeroSeriesResponse buf)"

definition getMeta :: "'v library \<Rightarrow> exchange \<Rightarrow> string \<Rightarrow> string
    \<Rightarrow> error + SeriesMetadataResponse" where
  "getMeta lib Do key name =
     (case Do \<lparr>url = basePath @ ''/'' @ seriesMetaPath,
               query = [(''series_id'', name), (''api_key'', key), (''file_type'', ''json'')]\<rparr> of
        Inl err \<Rightarrow> Inl err
      | Inr None \<Rightarrow> Inl SyntaxError
      | Inr (Some buf) \<Rightarrow> SeriesMetadataResponse_UnmarshalJSON lib zeroSeriesMetadataResponse buf)"


section \<open>The collector\<close>

text \<open>
  \<open>fredCollector\<close>. The map \<open>series\<close> is the list of its entries, with distinct
  keys, in the order in which a \<open>range\<close> loop visits them (an order the language
  leaves open, so that every order is possible). The entries are pointers in the
  source: an assignment to a field of \<open>cs\<close> is an update of the entry. The HTTP
  client is the parameter \<open>Do\<close> of the functions that fetch.
\<close>

record 'v fredCollector =
  apiKey :: string
  series :: "(string \<times> 'v collectorSeries) list"

text \<open>
  \<open>strings.ToLower\<close> and \<open>metricName\<close>, on identifiers written in ASCII.
\<close>

definition ToLower :: "string \<Rightarrow> string" where
  "ToLower s = map lowerCase s"

definition Replace :: "string \<Rightarrow> char \<Rightarrow> char \<Rightarrow> string" where
  "Replace s old new = map (\<lambda>c. if c = old then new else c) s"

definition metricName :: "string \<Rightarrow> string" where
  "metricName s = ToLower (Replace (Replace s (CHR '':'') (CHR ''_'')) (CHR ''-'') (CHR ''_''))"

text \<open>
  A metric sent on the channel: \<open>MustNewConstMetric(cs.desc, GaugeValue, cs.value, n)\<close>
  is the gauge value with the value \<open>n\<close> of the label \<open>series\<close> (a label value
  that is valid UTF-8, as the identifiers of the provider are).
\<close>

record 'v sample =
  labelValue :: string
  gauge :: 'v

text \<open>
  What one call of \<open>Collect\<close> has done when it ends: how it ended (the loop ran
  to its end, the call returned on an error of \<open>getSeries\<close>, or it panicked on a
  nil observation), the entries of the map, the metrics sent on the channel in
  order, the names \<open>getSeries\<close> was called with in order, and whether the read
  lock taken at the start is still held. The lines printed are not modelled.
\<close>

datatype exit = Completed | Returned error | Panicked

record 'v collected =
  exit :: exit
  entries :: "(string \<times> 'v collectorSeries) list"
  sent :: "'v sample list"
  fetched :: "string list"
  readLocked :: bool

text \<open>One iteration has updated the entry and sent the metrics \<open>ms\<close>; the rest follows.\<close>

definition iteration :: "string \<Rightarrow> 'v collectorSeries \<Rightarrow> 'v sample list \<Rightarrow> 'v collected
    \<Rightarrow> 'v collected" where
  "iteration name cs ms rest =
     rest\<lparr>entries := (name, cs) # entries rest,
          sent := ms @ sent rest,
          fetched := name # fetched rest\<rparr>"

text \<open>
  The loop of \<open>Collect\<close> over the entries of the map. The call
  \<open>c.getSeries(series)\<close> is the parameter \<open>fetch\<close> and the reading of
  \<open>time.Now()\<close> in the iteration of a series is \<open>now\<close> of its name. The test
  \<open>cs.shouldUpdate()\<close> is commented out in the source: every iteration fetches.
\<close>

fun collectLoop :: "(string \<Rightarrow> error + 'v SeriesResponse) \<Rightarrow> (string \<Rightarrow> Time)
    \<Rightarrow> (string \<times> 'v collectorSeries) list \<Rightarrow> 'v collected" where
  "collectLoop fetch now [] =
     \<lparr>exit = Completed, entries = [], sent = [], fetched = [], readLocked = False\<rparr>"
| "collectLoop fetch now ((name, cs) # rest) =
     (case fetch name of
        Inl err \<Rightarrow>
          \<lparr>exit = Returned err, entries = (name, cs) # rest, sent = [], fetched = [name],
           readLocked = True\<rparr>
      | Inr res \<Rightarrow>
          if r_Error res \<noteq> [] then
            iteration name (cs\<lparr>lastUpdate := now name\<rparr>) [] (collectLoop fetch now rest)
          else if length (r_Observations res) > 0 then
            (case last (r_Observations res) of
               None \<Rightarrow>
                 \<lparr>exit = Panicked, entries = (name, cs) # rest, sent = [], fetched = [name],
                  readLocked = True\<rparr>
             | Some ob \<Rightarrow>
                 iteration name (cs\<lparr>val := o_Value ob, lastUpdate := now name\<rparr>)
                   [\<lparr>labelValue = metricName name, gauge = o_Value ob\<rparr>]
                   (collectLoop fetch now rest))
          else
            iteration name cs [\<lparr>labelValue = metricName name, gauge = val cs\<rparr>]
              (collectLoop fetch now rest))"

text \<open>\<open>Collect\<close>.\<close>

definition Collect :: "'v::zero library \<Rightarrow> exchange \<Rightarrow> (string \<Rightarrow> Time) \<Rightarrow> 'v fredCollector
    \<Rightarrow> 'v collected" where
  "Collect lib Do now c = collectLoop (getSeries lib Do (apiKey c)) now (series c)"

subsection \<open>Construction\<close>

text \<open>\<open>collector.series[s] = v\<close>: the entry of the key is replaced, or a new one added.\<close>

fun assign :: "string \<Rightarrow> 'a \<Rightarrow> (string \<times> 'a) list \<Rightarrow> (string \<times> 'a) list" where
  "assign k v [] = [(k, v)]"
| "assign k v ((k', v') # m) = (if k' = k then (k, v) # m else (k', v') # assign k v m)"

datatype panic = NilPointerDereference

text \<open>
  The loop of \<open>NewFredCollector\<close> over the configured identifiers, with the call
  \<open>collector.getMeta(s)\<close> as the parameter \<open>meta\<close>. When \<open>getMeta\<close> returns an
  error its first result is nil, and the next statement reads \<open>meta.Error\<close>.
  A first element of \<open>meta.Series\<close> that is nil is read as well.
\<close>

fun registerLoop :: "(string \<Rightarrow> error + SeriesMetadataResponse) \<Rightarrow> string list
    \<Rightarrow> (string \<times> 'v::zero collectorSeries) list
    \<Rightarrow> panic + (string \<times> 'v collectorSeries) list" where
  "registerLoop meta [] m = Inr m"
| "registerLoop meta (s # ss) m =
     (case meta s of
        Inl err \<Rightarrow> Inl NilPointerDereference
      | Inr res \<Rightarrow>
          if mr_Error res \<noteq> [] then registerLoop meta ss m
          else
            (case mr_Series res of
               [] \<Rightarrow>
                 registerLoop meta ss
                   (assign s \<lparr>title = ToLower s, lastUpdate = zeroTime, val = 0,
                              frequency = []\<rparr> m)
             | None # others \<Rightarrow> Inl NilPointerDereference
             | Some first # others \<Rightarrow>
                 registerLoop meta ss
                   (assign s \<lparr>title = sm_Title first, lastUpdate = zeroTime, val = 0,
                              frequency = sm_FrequencyShort first\<rparr> m)))"

text \<open>\<open>NewFredCollector\<close>.\<close>

definition NewFredCollector :: "'v::zero library \<Rightarrow> exchange \<Rightarrow> string \<Rightarrow> string list
    \<Rightarrow> panic + 'v fredCollector" where
  "NewFredCollector lib Do key ids =
     (case registerLoop (getMeta lib Do key) ids [] of
        Inl p \<Rightarrow> Inl p
      | Inr m \<Rightarrow> Inr \<lparr>apiKey = key, series = m\<rparr>)"

section \<open>The rate-limited round tripper\<close>

text \<open>
  \<open>RateLimitedRoundTripper.RoundTrip\<close>. The call \<open>r.l.Wait(req.Context())\<close> is the
  parameter \<open>Wait\<close>: it returns nil (\<open>None\<close>) once a token is granted, or an
  error. The wrapped round tripper \<open>r.rt\<close> is the parameter \<open>rt\<close>. The result
  is what \<open>RoundTrip\<close> returns, with the requests handed to \<open>r.rt\<close>.
\<close>

record ('req, 'resp) roundTrip =
  returned :: "error + 'resp"
  forwarded :: "'req list"

definition RoundTrip :: "('req \<Rightarrow> error option) \<Rightarrow> ('req \<Rightarrow> error + 'resp) \<Rightarrow> 'req
    \<Rightarrow> ('req, 'resp) roundTrip" where
  "RoundTrip Wait rt req =
     (let discarded = Wait req
      in \<lparr>returned = rt req, forwarded = [req]\<rparr>)"


section \<open>A library instance for evaluation\<close>

text \<open>
  To run the decoding functions on concrete responses, the two library functions
  are instantiated for the texts that occur in them. Under the layout
  \<open>2006-01-02\<close> a date is four digits, two digits and two digits separated by
  \<open>-\<close>, with a month from 1 to 12 and a day of that month; its instant is
  midnight UTC. No text is accepted under another layout. A number is an optional
  sign and decimal digits with at most one point and at least one digit, and its
  value is the exact decimal fraction: exponents, hexadecimal literals, infinities,
  NaN and the rounding to 64 bits are not covered.
\<close>

definition isDigit :: "char \<Rightarrow> bool" where
  "isDigit c = (let n = (of_char c :: nat) in 48 \<le> n \<and> n \<le> 57)"

definition atoi :: "string \<Rightarrow> int option" where
  "atoi s =
     (if s \<noteq> [] \<and> list_all isDigit s
      then Some (foldl (\<lambda>a c. 10 * a + (of_char c - 48)) 0 s)
      else None)"

definition daysIn :: "int \<Rightarrow> int \<Rightarrow> int" where
  "daysIn m y =
     (if m = 2 then (if isLeapYear y then 29 else 28)
      else if m \<in> set [4, 6, 9, 11] then 30 else 31)"

text \<open>The days from 1 January of year 1 to a date (the inverse of \<open>civilDate\<close>).\<close>

definition daysBefore :: "int \<Rightarrow> int \<Rightarrow> int \<Rightarrow> int" where
  "daysBefore y m d =
     (let shiftedYear = (if m \<le> 2 then y - 1 else y);
          cycle = shiftedYear div 400;
          yearOfCycle = shiftedYear mod 400;
          dayOfYear = (153 * (if m > 2 then m - 3 else m + 9) + 2) div 5 + d - 1;
          dayOfCycle = 365 * yearOfCycle + yearOfCycle div 4 - yearOfCycle div 100 + dayOfYear
      in 146097 * cycle + dayOfCycle - 306)"

definition parseDate :: "string \<Rightarrow> error + Time" where
  "parseDate v =
     (if length v = 10 \<and> v ! 4 = CHR ''-'' \<and> v ! 7 = CHR ''-'' then
        (case (atoi (take 4 v), atoi (take 2 (drop 5 v)), atoi (drop 8 v)) of
           (Some y, Some m, Some d) \<Rightarrow>
             (if 1 \<le> m \<and> m \<le> 12 \<and> 1 \<le> d \<and> d \<le> daysIn m y
              then Inr (daysBefore y m d * (24 * Hour))
              else Inl ParseError)
         | _ \<Rightarrow> Inl ParseError)
      else Inl ParseError)"

definition parseDecimal :: "string \<Rightarrow> error + rat" where
  "parseDecimal s =
     (let negative = (take 1 s = ''-'');
          unsigned = (if take 1 s = ''-'' \<or> take 1 s = ''+'' then drop 1 s else s);
          whole = takeWhile (\<lambda>c. c \<noteq> CHR ''.'') unsigned;
          fraction = drop 1 (dropWhile (\<lambda>c. c \<noteq> CHR ''.'') unsigned)
      in case atoi (whole @ fraction) of
           None \<Rightarrow> Inl NumError
         | Some n \<Rightarrow>
             Inr ((if negative then - 1 else 1) * of_int n / 10 ^ length fraction))"

definition stdlib :: "rat library" where
  "stdlib =
     \<lparr>timeParse = (\<lambda>layout v. if layout = ''2006-01-02'' then parseDate v else Inl ParseError),
      ParseFloat = parseDecimal\<rparr>"


section \<open>Two stretches of the loop\<close>

text \<open>
  What the loop of \<open>Collect\<close> has done over a stretch of entries that it left at
  its end, followed by what it has done over the entries after them.
\<close>

definition joined :: "'v collected \<Rightarrow> 'v collected \<Rightarrow> 'v collected" where
  "joined a b =
     \<lparr>exit = exit b, entries = entries a @ entries b, sent = sent a @ sent b,
      fetched = fetched a @ fetched b, readLocked = readLocked b\<rparr>"

section \<open>Example responses\<close>

text \<open>
  Responses in the provider's format: a series response with two observations, one
  with none, and the body the provider sends with status 400 for a series it does
  not know.
\<close>

definition observationJSON :: "string \<Rightarrow> string \<Rightarrow> json" where
  "observationJSON date v =
     JObject [(''realtime_start'', JString ''2024-02-29''),
              (''realtime_end'', JString ''2024-02-29''),
              (''date'', JString date),
              (''value'', JString v)]"

definition observationsBody :: json where
  "observationsBody =
     JObject [(''realtime_start'', JString ''2024-02-29''),
              (''realtime_end'', JString ''2024-02-29''),
              (''units'', JString ''lin''),
              (''count'', JInt 2),
              (''observations'',
                 JArray [observationJSON ''2024-02-27'' ''4.25'',
                         observationJSON ''2024-02-28'' ''4.5''])]"

definition emptyBody :: json where
  "emptyBody =
     JObject [(''realtime_start'', JString ''2024-02-29''),
              (''realtime_end'', JString ''2024-02-29''),
              (''count'', JInt 0),
              (''observations'', JArray [])]"

definition rejectedBody :: json where
  "rejectedBody =
     JObject [(''error_code'', JInt 400),
              (''error_message'', JString ''Bad Request.  The series does not exist.'')]"

text \<open>
  A provider that knows the series \<open>DGS10\<close> (two observations) and \<open>CPIAUCSL\<close>
  (none), cannot be reached for \<open>GDP\<close>, and rejects every other identifier.
\<close>

definition provider :: exchange where
  "provider req =
     (let id = map_of (query req) ''series_id''
      in if id = Some ''DGS10'' then Inr (Some observationsBody)
         else if id = Some ''CPIAUCSL'' then Inr (Some emptyBody)
         else if id = Some ''GDP'' then Inl TransportError
         else Inr (Some rejectedBody))"

text \<open>Midnight and noon (UTC) of 29 February 2024.\<close>

definition midnight :: Time where
  "midnight = 63844761600000000000"

definition noon :: Time where
  "noon = 63844804800000000000"

definition atNoon :: "string \<Rightarrow> Time" where
  "atNoon name = noon"


section \<open>What the construction registers\<close>




section \<open>A failed wait\<close>

text \<open>
  A wait on the limiter that fails: the context of the request ends before the
  next token is due.
\<close>

definition failedWait :: "request \<Rightarrow> error option" where
  "failedWait req = Some WouldExceedDeadline"


section \<open>Properties of the freshness check\<close>

lemma smod_eq_0_iff_dvd_int: "(k smod l = 0) = (l dvd k)" for k l :: int
proof (cases "l = 0")
  case True
  then show ?thesis by (simp add: signed_modulo_int_def sgn_if)
next
  case False
  have "(sgn k * (\<bar>k\<bar> mod \<bar>l\<bar>) = 0) = (\<bar>k\<bar> mod \<bar>l\<bar> = 0)"
    by (cases "k = 0") (auto simp: sgn_if)
  also have "\<dots> = (\<bar>l\<bar> dvd \<bar>k\<bar>)"
    by (simp add: dvd_eq_mod_eq_0)
  also have "\<dots> = (l dvd k)"
    by simp
  finally show ?thesis
    by (simp add: signed_modulo_int_def)
qed

lemma isLeapYear_gregorian: "isLeapYear y = gregorianLeap y"
proof -
  have "(100::int) dvd 400" "(4::int) dvd 100"
    by simp_all
  then have "400 dvd y \<Longrightarrow> 100 dvd y" "100 dvd y \<Longrightarrow> 4 dvd y"
    by (blast intro: dvd_trans)+
  then show ?thesis
    by (auto simp: isLeapYear_def gregorianLeap_def smod_eq_0_iff_dvd_int)
qed

lemma monthly_threshold:
  "(if m \<in> set [January, March, May, July, August, October, December] then 31 * 24 * Hour < d
    else if m \<in> set [April, June, September, November] then 30 * 24 * Hour < d
    else (if isLeapYear y then 28 * 24 * Hour < d else 29 * 24 * Hour < d)) =
   (case specThreshold Monthly m y of None \<Rightarrow> True | Some thr \<Rightarrow> thr < d)"
  by (cases m) (simp_all add: isLeapYear_gregorian Day_def)

lemma frequency_cascade:
  "(if b1 then 24 * Hour < d
    else if b2 then 7 * 24 * Hour < d
    else if b3 then 14 * 24 * Hour < d
    else if b4 then (case specThreshold Monthly m y of None \<Rightarrow> True | Some thr \<Rightarrow> thr < d)
    else if b5 then 91 * 24 * Hour < d
    else if b6 then 182 * 24 * Hour < d
    else if b7 then 365 * 24 * Hour < d
    else True) =
   (case specThreshold
           (if b1 then Daily else if b2 then Weekly else if b3 then Biweekly
            else if b4 then Monthly else if b5 then Quarterly
            else if b6 then Semiannual else if b7 then Annual else Unknown) m y of
      None \<Rightarrow> True
    | Some thr \<Rightarrow> thr < d)"
  by (simp add: Day_def del: specThreshold.simps(4))

lemma shouldUpdate_specStale:
  "shouldUpdate cal cs now =
     specStale (frequencyCode (frequency cs)) (MonthOf cal now) (Year cal now) (lastUpdate cs) now"
proof -
  have less: "(a + d < b) = (d < b - a)" for a b d :: int
    by linarith
  show ?thesis
    unfolding shouldUpdate_def specStale_def frequencyCode_def After_def Add_def less
      monthly_threshold
    by (rule frequency_cascade)
qed

subsection \<open>The threshold table\<close>

text \<open>
  Claim C4. For every frequency string, every last-refresh instant and every current
  instant, the decision of \<open>shouldUpdate\<close> is the one of the threshold table of
  section 4.3: with threshold \<open>d\<close>, an elapsed time equal to \<open>d\<close> is not yet
  stale and one second more is stale; an unrecognised frequency is always stale;
  for a monthly series in February the threshold is 28 days when the current year
  is a leap year and 29 days otherwise; and \<open>isLeapYear\<close> is the proleptic
  Gregorian rule (1900 and 2100 are not leap years, 2000 and 2024 are).
\<close>

theorem shouldUpdate_threshold_table:
  "shouldUpdate cal cs now =
     specStale (frequencyCode (frequency cs)) (MonthOf cal now) (Year cal now) (lastUpdate cs) now
   \<and> (\<forall>d. specThreshold (frequencyCode (frequency cs)) (MonthOf cal now) (Year cal now) = Some d \<longrightarrow>
          (now = Add (lastUpdate cs) d \<longrightarrow> \<not> shouldUpdate cal cs now) \<and>
          (now = Add (Add (lastUpdate cs) d) Second \<longrightarrow> shouldUpdate cal cs now))
   \<and> (specThreshold (frequencyCode (frequency cs)) (MonthOf cal now) (Year cal now) = None \<longrightarrow>
          shouldUpdate cal cs now)
   \<and> (frequencyCode (frequency cs) = Monthly \<and> MonthOf cal now = February \<longrightarrow>
          shouldUpdate cal cs now =
            After now (Add (lastUpdate cs) ((if isLeapYear (Year cal now) then 28 else 29) * Day)))
   \<and> isLeapYear y = gregorianLeap y
   \<and> \<not> isLeapYear 1900 \<and> isLeapYear 2000 \<and> isLeapYear 2024 \<and> \<not> isLeapYear 2100"
proof -
  let ?thr = "specThreshold (frequencyCode (frequency cs)) (MonthOf cal now) (Year cal now)"
  have eq: "shouldUpdate cal cs now =
     specStale (frequencyCode (frequency cs)) (MonthOf cal now) (Year cal now) (lastUpdate cs) now"
    by (rule shouldUpdate_specStale)
  have boundary: "\<forall>d. ?thr = Some d \<longrightarrow>
          (now = Add (lastUpdate cs) d \<longrightarrow> \<not> shouldUpdate cal cs now) \<and>
          (now = Add (Add (lastUpdate cs) d) Second \<longrightarrow> shouldUpdate cal cs now)"
  proof (intro allI impI)
    fix d
    assume "?thr = Some d"
    then have "shouldUpdate cal cs now = (d < now - lastUpdate cs)"
      unfolding eq specStale_def by simp
    then show "(now = Add (lastUpdate cs) d \<longrightarrow> \<not> shouldUpdate cal cs now) \<and>
          (now = Add (Add (lastUpdate cs) d) Second \<longrightarrow> shouldUpdate cal cs now)"
      unfolding Add_def Second_def by linarith
  qed
  have unknown: "?thr = None \<longrightarrow> shouldUpdate cal cs now"
    unfolding eq specStale_def by simp
  have feb: "frequencyCode (frequency cs) = Monthly \<and> MonthOf cal now = February \<longrightarrow>
          shouldUpdate cal cs now =
            After now (Add (lastUpdate cs) ((if isLeapYear (Year cal now) then 28 else 29) * Day))"
    unfolding eq specStale_def by (auto simp: After_def Add_def isLeapYear_gregorian)
  have years: "\<not> isLeapYear 1900" "isLeapYear 2000" "isLeapYear 2024" "\<not> isLeapYear 2100"
    by (simp_all add: isLeapYear_gregorian gregorianLeap_def)
  show ?thesis
    using eq boundary unknown feb years isLeapYear_gregorian [of y] by blast
qed

text \<open>
  The table at concrete instants in a UTC process: a monthly series last refreshed
  on 1 February 2024 (a leap year) is not stale at midnight of 29 February 2024,
  28 days later, and is stale one second after; a series without a frequency is
  stale.
\<close>

theorem shouldUpdate_threshold_table_witness:
  "specThreshold (frequencyCode ''M'') (MonthOf utc 63844761600000000000)
       (Year utc 63844761600000000000) = Some (28 * Day)
   \<and> 63844761600000000000 = Add 63842342400000000000 (28 * Day)
   \<and> \<not> shouldUpdate utc
         \<lparr>title = ''CPI'', lastUpdate = 63842342400000000000, val = 0 :: int, frequency = ''M''\<rparr>
         63844761600000000000
   \<and> shouldUpdate utc
         \<lparr>title = ''CPI'', lastUpdate = 63842342400000000000, val = 0 :: int, frequency = ''M''\<rparr>
         (Add (Add 63842342400000000000 (28 * Day)) Second)
   \<and> specThreshold (frequencyCode '''') (MonthOf utc 63844761600000000000)
       (Year utc 63844761600000000000) = None
   \<and> shouldUpdate utc
         \<lparr>title = ''CPI'', lastUpdate = 63842342400000000000, val = 0 :: int, frequency = ''''\<rparr>
         63844761600000000000"
proof -
  let ?now = "63844761600000000000 :: int"
  let ?cs = "\<lparr>title = ''CPI'', lastUpdate = 63842342400000000000, val = 0 :: int, frequency = ''M''\<rparr>"
  let ?un = "\<lparr>title = ''CPI'', lastUpdate = 63842342400000000000, val = 0 :: int, frequency = ''''\<rparr>"
  have cal: "Year utc ?now = 2024" "MonthOf utc ?now = February"
    "Year utc 63844761601000000000 = 2024" "MonthOf utc 63844761601000000000 = February"
    by code_simp+
  have leap: "gregorianLeap 2024"
    by (simp add: gregorianLeap_def)
  have code: "frequencyCode ''M'' = Monthly" "frequencyCode '''' = Unknown"
    by (simp_all add: frequencyCode_def)
  show ?thesis
    using shouldUpdate_threshold_table [of utc ?cs ?now 2024]
      shouldUpdate_threshold_table [of utc ?cs 63844761601000000000 2024]
      shouldUpdate_threshold_table [of utc ?un ?now 2024]
    by (auto simp: cal leap code Add_def Day_def Hour_def Second_def)
qed

section \<open>Properties of the export cycle\<close>

lemma joined_iteration:
  "joined (iteration name cs ms a) b = iteration name cs ms (joined a b)"
  by (simp add: joined_def iteration_def)

lemma exit_iteration [simp]: "exit (iteration name cs ms r) = exit r"
  by (simp add: iteration_def)

lemma collectLoop_append:
  "exit (collectLoop fetch now before) = Completed \<Longrightarrow>
   collectLoop fetch now (before @ rest) =
     joined (collectLoop fetch now before) (collectLoop fetch now rest)"
proof (induction before)
  case Nil
  show ?case by (simp add: joined_def)
next
  case (Cons entry before)
  obtain name cs where entry: "entry = (name, cs)"
    by (cases entry)
  show ?case
  proof (cases "fetch name")
    case (Inl err)
    with Cons.prems entry show ?thesis by simp
  next
    case (Inr res)
    with Cons.prems entry have "exit (collectLoop fetch now before) = Completed"
      by (auto split: if_splits option.splits)
    then have IH: "collectLoop fetch now (before @ rest) =
        joined (collectLoop fetch now before) (collectLoop fetch now rest)"
      by (rule Cons.IH)
    from Cons.prems entry Inr show ?thesis
      by (auto simp: IH joined_iteration split: if_splits option.splits)
  qed
qed

lemma sent_labels:
  "labelValue ` set (sent (collectLoop fetch now es)) \<subseteq> metricName ` fst ` set es"
proof (induction es)
  case Nil
  show ?case by simp
next
  case (Cons entry es)
  obtain name cs where entry: "entry = (name, cs)"
    by (cases entry)
  from Cons.IH show ?case
    unfolding entry
    by (cases "fetch name") (auto simp: iteration_def split: option.splits)
qed

subsection \<open>The freshness check is not consulted\<close>

text \<open>
  Claim C1: an export cycle fetches no series that the freshness check finds fresh,
  and emits its cached value unchanged. \<open>Collect\<close> does not do so, as the test
  \<open>cs.shouldUpdate()\<close> is commented out: a daily series refreshed at midnight
  is fresh at noon, yet \<open>Collect\<close> calls \<open>getSeries\<close> for it, replaces the cached
  value 4.25 by the fetched 4.5 and sends the new value.
\<close>

theorem Collect_fetches_fresh_series:
  "\<not> shouldUpdate utc
       \<lparr>title = ''10-Year Treasury'', lastUpdate = midnight, val = 17 / 4 :: rat,
        frequency = ''D''\<rparr> noon
   \<and> Collect stdlib provider atNoon
       \<lparr>apiKey = ''key'',
        series = [(''DGS10'', \<lparr>title = ''10-Year Treasury'', lastUpdate = midnight,
                               val = 17 / 4, frequency = ''D''\<rparr>)]\<rparr> =
       \<lparr>exit = Completed,
        entries = [(''DGS10'', \<lparr>title = ''10-Year Treasury'', lastUpdate = noon,
                                val = 9 / 2, frequency = ''D''\<rparr>)],
        sent = [\<lparr>labelValue = ''dgs10'', gauge = 9 / 2\<rparr>],
        fetched = [''DGS10''],
        readLocked = False\<rparr>"
  by code_simp

subsection \<open>An error of the fetch\<close>

text \<open>
  Claim C2, amended: when the fetch of a series fails and the series visited before
  it were all dealt with, \<open>Collect\<close> returns at that series. The metrics sent
  are those of the series visited before, which stay sent and carry labels of
  those series only; nothing is sent for the failing series and for the series
  after it, whose entries are left as they were.
\<close>

theorem collectLoop_returns_at_error:
  assumes "exit (collectLoop fetch now before) = Completed"
    and "fetch name = Inl err"
  shows "collectLoop fetch now (before @ (name, cs) # rest) =
           \<lparr>exit = Returned err,
            entries = entries (collectLoop fetch now before) @ (name, cs) # rest,
            sent = sent (collectLoop fetch now before),
            fetched = fetched (collectLoop fetch now before) @ [name],
            readLocked = True\<rparr>
         \<and> labelValue ` set (sent (collectLoop fetch now before))
             \<subseteq> metricName ` fst ` set before"
  using assms sent_labels [of fetch now before]
  by (simp add: collectLoop_append joined_def)

text \<open>
  An instance: \<open>DGS10\<close> is fetched, the provider cannot be reached for \<open>GDP\<close>,
  and \<open>CPIAUCSL\<close> would come after.
\<close>

theorem collectLoop_returns_at_error_witness:
  "exit (collectLoop (getSeries stdlib provider ''key'') atNoon
           [(''DGS10'', \<lparr>title = ''10-Year Treasury'', lastUpdate = zeroTime, val = 0,
                          frequency = ''D''\<rparr>)]) = Completed
   \<and> getSeries stdlib provider ''key'' ''GDP'' = Inl TransportError
   \<and> sent (collectLoop (getSeries stdlib provider ''key'') atNoon
         ([(''DGS10'', \<lparr>title = ''10-Year Treasury'', lastUpdate = zeroTime, val = 0,
                         frequency = ''D''\<rparr>)]
          @ (''GDP'', \<lparr>title = ''Gross Domestic Product'', lastUpdate = zeroTime, val = 0,
                       frequency = ''Q''\<rparr>)
          # [(''CPIAUCSL'', \<lparr>title = ''Consumer Price Index'', lastUpdate = zeroTime,
                              val = 0, frequency = ''M''\<rparr>)])) =
       sent (collectLoop (getSeries stdlib provider ''key'') atNoon
           [(''DGS10'', \<lparr>title = ''10-Year Treasury'', lastUpdate = zeroTime, val = 0,
                          frequency = ''D''\<rparr>)])"
proof -
  let ?fetch = "getSeries stdlib provider ''key'' :: string \<Rightarrow> error + rat SeriesResponse"
  let ?before = "[(''DGS10'', \<lparr>title = ''10-Year Treasury'', lastUpdate = zeroTime,
                             val = 0 :: rat, frequency = ''D''\<rparr>)]"
  have completed: "exit (collectLoop ?fetch atNoon ?before) = Completed"
    by code_simp
  have failed: "?fetch ''GDP'' = Inl TransportError"
    by code_simp
  show ?thesis
    using completed failed collectLoop_returns_at_error [OF completed failed]
    by simp
qed

text \<open>
  The cycle as a whole is not all-or-nothing: with \<open>DGS10\<close> visited before the
  failing \<open>GDP\<close>, the metric of \<open>DGS10\<close> has been sent when \<open>Collect\<close> returns.
\<close>

theorem Collect_sends_before_error:
  "Collect stdlib provider atNoon
     \<lparr>apiKey = ''key'',
      series = [(''DGS10'', \<lparr>title = ''10-Year Treasury'', lastUpdate = zeroTime,
                             val = 0, frequency = ''D''\<rparr>),
                (''GDP'', \<lparr>title = ''Gross Domestic Product'', lastUpdate = zeroTime,
                           val = 0, frequency = ''Q''\<rparr>)]\<rparr> =
     \<lparr>exit = Returned TransportError,
      entries = [(''DGS10'', \<lparr>title = ''10-Year Treasury'', lastUpdate = noon,
                              val = 9 / 2, frequency = ''D''\<rparr>),
                 (''GDP'', \<lparr>title = ''Gross Domestic Product'', lastUpdate = zeroTime,
                            val = 0, frequency = ''Q''\<rparr>)],
      sent = [\<lparr>labelValue = ''dgs10'', gauge = 9 / 2\<rparr>],
      fetched = [''DGS10'', ''GDP''],
      readLocked = True\<rparr>"
  by code_simp

subsection \<open>A response of the provider that reports an error\<close>

text \<open>
  Claim C3: when the fetch of a series returns a well-formed response that carries
  an error of the provider, the cycle is not aborted, the cached value is left
  unchanged, the \<open>lastUpdate\<close> of the series is advanced to the current time,
  and the metric with the cached value is still sent. \<open>Collect\<close> does not advance
  the time: the body with which the provider rejects a series is decoded into a
  response with an empty \<open>Error\<close> field, the branch of \<open>Collect\<close> that sets
  \<open>lastUpdate\<close> is not taken, and the response has no observation, so that in a
  cycle run at noon the \<open>lastUpdate\<close> of the series stays at midnight. The cached
  value 4.25 is kept and sent.
\<close>

theorem Collect_rejected_keeps_lastUpdate:
  "getSeries stdlib provider ''key'' ''UNKNOWN'' = Inr zeroSeriesResponse
   \<and> Collect stdlib provider atNoon
       \<lparr>apiKey = ''key'',
        series = [(''UNKNOWN'', \<lparr>title = ''unknown'', lastUpdate = midnight, val = 17 / 4,
                                 frequency = ''D''\<rparr>)]\<rparr> =
       \<lparr>exit = Completed,
        entries = [(''UNKNOWN'', \<lparr>title = ''unknown'', lastUpdate = midnight, val = 17 / 4,
                                  frequency = ''D''\<rparr>)],
        sent = [\<lparr>labelValue = ''unknown'', gauge = 17 / 4\<rparr>],
        fetched = [''UNKNOWN''],
        readLocked = False\<rparr>
   \<and> midnight \<noteq> atNoon ''UNKNOWN''"
  by code_simp

subsection \<open>A response without observations\<close>

text \<open>
  Claim C5, amended: when the fetch of a series returns a response with an empty
  \<open>Error\<close> field and no observations, the entry of the series is left as it
  is, its value and its \<open>lastUpdate\<close> alike, and the metric with the cached
  value is sent for it in this cycle, which goes on with the next series.
\<close>

theorem collectLoop_no_observations:
  assumes "exit (collectLoop fetch now before) = Completed"
    and "fetch name = Inr res"
    and "r_Error res = []"
    and "r_Observations res = []"
  shows "collectLoop fetch now (before @ (name, cs) # rest) =
           \<lparr>exit = exit (collectLoop fetch now rest),
            entries = entries (collectLoop fetch now before)
                      @ (name, cs) # entries (collectLoop fetch now rest),
            sent = sent (collectLoop fetch now before)
                   @ \<lparr>labelValue = metricName name, gauge = val cs\<rparr>
                   # sent (collectLoop fetch now rest),
            fetched = fetched (collectLoop fetch now before)
                      @ name # fetched (collectLoop fetch now rest),
            readLocked = readLocked (collectLoop fetch now rest)\<rparr>"
  using assms by (simp add: collectLoop_append joined_def iteration_def)

text \<open>An instance: the provider has no observation of \<open>CPIAUCSL\<close>.\<close>

theorem collectLoop_no_observations_witness:
  "exit (collectLoop (getSeries stdlib provider ''key'') atNoon []) = Completed
   \<and> getSeries stdlib provider ''key'' ''CPIAUCSL'' =
       Inr (zeroSeriesResponse\<lparr>r_RealtimeStart := midnight, r_RealtimeEnd := midnight\<rparr>)
   \<and> r_Error (zeroSeriesResponse\<lparr>r_RealtimeStart := midnight, r_RealtimeEnd := midnight\<rparr>
              :: rat SeriesResponse) = []
   \<and> r_Observations (zeroSeriesResponse\<lparr>r_RealtimeStart := midnight, r_RealtimeEnd := midnight\<rparr>
              :: rat SeriesResponse) = []
   \<and> collectLoop (getSeries stdlib provider ''key'') atNoon
         ([] @ (''CPIAUCSL'', \<lparr>title = ''Consumer Price Index'', lastUpdate = midnight,
                               val = 3, frequency = ''M''\<rparr>) # []) =
       \<lparr>exit = Completed,
        entries = [(''CPIAUCSL'', \<lparr>title = ''Consumer Price Index'', lastUpdate = midnight,
                                  val = 3, frequency = ''M''\<rparr>)],
        sent = [\<lparr>labelValue = ''cpiaucsl'', gauge = 3\<rparr>],
        fetched = [''CPIAUCSL''],
        readLocked = False\<rparr>"
proof -
  let ?fetch = "getSeries stdlib provider ''key'' :: string \<Rightarrow> error + rat SeriesResponse"
  let ?res = "zeroSeriesResponse\<lparr>r_RealtimeStart := midnight, r_RealtimeEnd := midnight\<rparr>
                :: rat SeriesResponse"
  have completed: "exit (collectLoop ?fetch atNoon []) = Completed"
    by simp
  have fetched: "?fetch ''CPIAUCSL'' = Inr ?res"
    by code_simp
  have message: "r_Error ?res = []" and none: "r_Observations ?res = []"
    by (simp_all add: zeroSeriesResponse_def)
  have label: "metricName ''CPIAUCSL'' = ''cpiaucsl''"
    by code_simp
  show ?thesis
    using completed fetched message none
      collectLoop_no_observations [OF completed fetched message none,
        of "\<lparr>title = ''Consumer Price Index'', lastUpdate = midnight, val = 3,
             frequency = ''M''\<rparr>" "[]"]
    by (simp add: label)
qed

text \<open>
  The \<open>lastUpdate\<close> of such a series is not moved to the current time: it stays
  at midnight in a cycle run at noon.
\<close>

theorem Collect_no_observations_keeps_lastUpdate:
  "Collect stdlib provider atNoon
     \<lparr>apiKey = ''key'',
      series = [(''CPIAUCSL'', \<lparr>title = ''Consumer Price Index'', lastUpdate = midnight,
                               val = 3, frequency = ''M''\<rparr>)]\<rparr> =
     \<lparr>exit = Completed,
      entries = [(''CPIAUCSL'', \<lparr>title = ''Consumer Price Index'', lastUpdate = midnight,
                                val = 3, frequency = ''M''\<rparr>)],
      sent = [\<lparr>labelValue = ''cpiaucsl'', gauge = 3\<rparr>],
      fetched = [''CPIAUCSL''],
      readLocked = False\<rparr>
   \<and> midnight \<noteq> atNoon ''CPIAUCSL''"
  by code_simp

section \<open>Properties of the decoder\<close>

lemma lookupField_mem: "lookupField fs key = Some f \<Longrightarrow> f \<in> set fs"
  by (auto simp: lookupField_def find_Some_iff split: option.splits)

lemma object_untouched:
  "object elem fs members st = Inr st' \<Longrightarrow> \<forall>f \<in> set fs. goName f \<noteq> n \<Longrightarrow>
   fst st' n = fst st n"
proof (induction members arbitrary: st)
  case Nil
  then show ?case by simp
next
  case (Cons member members)
  obtain key v where member: "member = (key, v)"
    by (cases member)
  obtain s saved where st: "st = (s, saved)"
    by (cases st)
  show ?case
  proof (cases "lookupField fs key")
    case None
    with Cons member st show ?thesis by simp
  next
    case (Some f)
    then have "goName f \<noteq> n"
      using Cons.prems(2) lookupField_mem by blast
    with Cons.prems(1) Cons.IH [OF _ Cons.prems(2)] member st Some show ?thesis
      by (cases "store elem (fieldKind f) v") (auto split: if_splits)
  qed
qed

lemma Unmarshal_untouched:
  assumes "Unmarshal elem fs b = Inr s" and "\<forall>f \<in> set (typeFields fs). goName f \<noteq> n"
  shows "s n = None"
proof (cases b)
  case (JObject members)
  with assms(1) obtain saved where
    "object elem (typeFields fs) members (Map.empty, None) = Inr (s, saved)"
    by (auto simp: Unmarshal_def split: sum.splits option.splits prod.splits)
  from object_untouched [OF this assms(2)] show ?thesis by simp
qed (use assms(1) in \<open>auto simp: Unmarshal_def\<close>)

lemma SeriesResponse_s_fields:
  "\<forall>f \<in> set (typeFields SeriesResponse_s).
     goName f \<noteq> ''Error'' \<and> goName f \<noteq> ''ErrorCode'' \<and> jsonName f \<noteq> ''error_code''"
  by code_simp

lemma SeriesMetadataResponse_s_fields:
  "\<forall>f \<in> set (typeFields SeriesMetadataResponse_s).
     goName f \<noteq> ''Error'' \<and> goName f \<noteq> ''ErrorCode'' \<and> jsonName f \<noteq> ''error_code''"
  by code_simp

lemma same_tag:
  "\<forall>f \<in> set SeriesResponse_decl \<union> set SeriesResponse_s
        \<union> set SeriesMetadataResponse_decl \<union> set SeriesMetadataResponse_s.
     goName f \<in> set [''ErrorCode'', ''Error''] \<longrightarrow> jsonTag f = ''error_code''"
  by code_simp

lemma unlessErr_Inr: "unlessErr r k = Inr y \<Longrightarrow> \<exists>x. r = Inr x \<and> k x = Inr y"
  by (cases r) (simp_all add: unlessErr_def)

lemma SeriesResponse_Error_empty:
  assumes "SeriesResponse_UnmarshalJSON lib r b = Inr r'"
  shows "r_Error r' = []"
proof -
  from assms obtain s where
    s: "Unmarshal (Observation_UnmarshalJSON lib zeroObservation) SeriesResponse_s b = Inr s"
    and "r_Error r' = getString s ''Error''"
    unfolding SeriesResponse_UnmarshalJSON_def
    by (auto dest!: unlessErr_Inr)
  moreover have "s ''Error'' = None"
    using Unmarshal_untouched [OF s] SeriesResponse_s_fields by blast
  ultimately show ?thesis
    by (simp add: getString_def)
qed

lemma SeriesMetadataResponse_Error_empty:
  assumes "SeriesMetadataResponse_UnmarshalJSON lib r b = Inr r'"
  shows "mr_Error r' = []"
proof -
  from assms obtain s where
    s: "Unmarshal (SeriesMetadata_UnmarshalJSON lib zeroSeriesMetadata)
          SeriesMetadataResponse_s b = Inr s"
    and "mr_Error r' = getString s ''Error''"
    unfolding SeriesMetadataResponse_UnmarshalJSON_def
    by (auto dest!: unlessErr_Inr)
  moreover have "s ''Error'' = None"
    using Unmarshal_untouched [OF s] SeriesMetadataResponse_s_fields by blast
  ultimately show ?thesis
    by (simp add: getString_def)
qed

lemma getSeries_Error_empty:
  "getSeries lib Do key name = Inr res \<Longrightarrow> r_Error res = []"
  by (auto simp: getSeries_def dest: SeriesResponse_Error_empty split: sum.splits option.splits)

lemma getMeta_Error_empty:
  "getMeta lib Do key name = Inr res \<Longrightarrow> mr_Error res = []"
  by (auto simp: getMeta_def dest: SeriesMetadataResponse_Error_empty
      split: sum.splits option.splits)

subsection \<open>The error message is never decoded\<close>

text \<open>
  Claim C10. In \<open>SeriesResponse\<close> and \<open>SeriesMetadataResponse\<close>, and in the
  structs their \<open>UnmarshalJSON\<close> methods decode into, the fields \<open>ErrorCode\<close>
  and \<open>Error\<close> both declare the JSON key \<open>error_code\<close>. The field table of the
  decoder therefore has neither of them, and whatever the JSON text, a decoding
  that succeeds leaves \<open>Error\<close> empty. So no response that \<open>getSeries\<close> or
  \<open>getMeta\<close> returns has a non-empty \<open>Error\<close>: the branches of \<open>Collect\<close> and
  \<open>NewFredCollector\<close> that test it are never taken, and an error reported by the
  provider is not detected.
\<close>

theorem Error_never_decoded:
  "(\<forall>f \<in> set SeriesResponse_decl \<union> set SeriesResponse_s
          \<union> set SeriesMetadataResponse_decl \<union> set SeriesMetadataResponse_s.
       goName f \<in> set [''ErrorCode'', ''Error''] \<longrightarrow> jsonTag f = ''error_code'')
   \<and> (\<forall>f \<in> set (typeFields SeriesResponse_s) \<union> set (typeFields SeriesMetadataResponse_s).
         goName f \<noteq> ''Error'' \<and> goName f \<noteq> ''ErrorCode'')
   \<and> (\<forall>r'. SeriesResponse_UnmarshalJSON lib r b = Inr r' \<longrightarrow> r_Error r' = [])
   \<and> (\<forall>m'. SeriesMetadataResponse_UnmarshalJSON lib m b = Inr m' \<longrightarrow> mr_Error m' = [])
   \<and> (\<forall>res. getSeries lib Do key name = Inr res \<longrightarrow> r_Error res = [])
   \<and> (\<forall>meta. getMeta lib Do key name = Inr meta \<longrightarrow> mr_Error meta = [])"
proof -
  have dropped: "\<forall>f \<in> set (typeFields SeriesResponse_s) \<union> set (typeFields SeriesMetadataResponse_s).
         goName f \<noteq> ''Error'' \<and> goName f \<noteq> ''ErrorCode''"
    using SeriesResponse_s_fields SeriesMetadataResponse_s_fields by blast
  show ?thesis
    using same_tag dropped SeriesResponse_Error_empty SeriesMetadataResponse_Error_empty
      getSeries_Error_empty getMeta_Error_empty
    by blast
qed

text \<open>
  An instance: the body with which the provider rejects a series is decoded
  without error into the zero response, for the observations and for the
  metadata.
\<close>

theorem Error_never_decoded_witness:
  "SeriesResponse_UnmarshalJSON stdlib zeroSeriesResponse rejectedBody = Inr zeroSeriesResponse
   \<and> SeriesMetadataResponse_UnmarshalJSON stdlib zeroSeriesMetadataResponse rejectedBody =
       Inr zeroSeriesMetadataResponse
   \<and> getSeries stdlib provider ''key'' ''UNKNOWN'' = Inr zeroSeriesResponse
   \<and> getMeta stdlib provider ''key'' ''UNKNOWN'' = Inr zeroSeriesMetadataResponse
   \<and> r_Error (zeroSeriesResponse :: rat SeriesResponse) = []
   \<and> mr_Error zeroSeriesMetadataResponse = []
   \<and> \<lparr>goName = ''Error'', jsonTag = ''error_code'', fieldKind = KString\<rparr>
       \<in> set SeriesResponse_s \<inter> set SeriesMetadataResponse_s
   \<and> \<lparr>goName = ''Error'', jsonTag = ''error_code'', fieldKind = KString\<rparr>
       \<notin> set (typeFields SeriesResponse_s) \<union> set (typeFields SeriesMetadataResponse_s)"
proof -
  have declared: "\<lparr>goName = ''Error'', jsonTag = ''error_code'', fieldKind = KString\<rparr>
      \<in> set SeriesResponse_s \<inter> set SeriesMetadataResponse_s"
    by code_simp
  have decoded: "SeriesResponse_UnmarshalJSON stdlib zeroSeriesResponse rejectedBody =
      Inr zeroSeriesResponse"
    "SeriesMetadataResponse_UnmarshalJSON stdlib zeroSeriesMetadataResponse rejectedBody =
      Inr zeroSeriesMetadataResponse"
    "getSeries stdlib provider ''key'' ''UNKNOWN'' = Inr zeroSeriesResponse"
    "getMeta stdlib provider ''key'' ''UNKNOWN'' = Inr zeroSeriesMetadataResponse"
    by code_simp+
  note applied = Error_never_decoded [of stdlib zeroSeriesResponse rejectedBody
      zeroSeriesMetadataResponse provider "''key''" "''UNKNOWN''"]
  have dropped: "\<lparr>goName = ''Error'', jsonTag = ''error_code'', fieldKind = KString\<rparr>
      \<notin> set (typeFields SeriesResponse_s) \<union> set (typeFields SeriesMetadataResponse_s)"
  proof
    assume "\<lparr>goName = ''Error'', jsonTag = ''error_code'', fieldKind = KString\<rparr>
      \<in> set (typeFields SeriesResponse_s) \<union> set (typeFields SeriesMetadataResponse_s)"
    with applied [THEN conjunct2, THEN conjunct1]
    have "goName \<lparr>goName = ''Error'', jsonTag = ''error_code'', fieldKind = KString\<rparr>
      \<noteq> ''Error''"
      by blast
    then show False
      by simp
  qed
  have empty: "r_Error (zeroSeriesResponse :: rat SeriesResponse) = []"
    "mr_Error zeroSeriesMetadataResponse = []"
    using applied decoded by simp_all
  from decoded declared dropped empty show ?thesis
    by blast
qed

subsection \<open>The value of an observation\<close>

lemma unlessErr_simps:
  "unlessErr (Inl e) k = Inl e" "unlessErr (Inr x) k = k x"
  by (simp_all add: unlessErr_def)

lemma typeFields_Observation_s: "typeFields Observation_s = Observation_s"
  by code_simp

lemma lookup_Observation_s:
  "lookupField Observation_s ''realtime_start'' =
     Some \<lparr>goName = ''RealtimeStart'', jsonTag = ''realtime_start'', fieldKind = KString\<rparr>"
  "lookupField Observation_s ''realtime_end'' =
     Some \<lparr>goName = ''RealtimeEnd'', jsonTag = ''realtime_end'', fieldKind = KString\<rparr>"
  "lookupField Observation_s ''date'' =
     Some \<lparr>goName = ''Date'', jsonTag = ''date'', fieldKind = KString\<rparr>"
  "lookupField Observation_s ''value'' =
     Some \<lparr>goName = ''Value'', jsonTag = ''value'', fieldKind = KString\<rparr>"
  by code_simp+

lemma Unmarshal_observation:
  "Unmarshal noElements Observation_s
     (JObject [(''realtime_start'', JString a), (''realtime_end'', JString b),
               (''date'', JString c), (''value'', JString v)]) =
   Inr [''RealtimeStart'' \<mapsto> GoString a, ''RealtimeEnd'' \<mapsto> GoString b,
        ''Date'' \<mapsto> GoString c, ''Value'' \<mapsto> GoString v]"
  by (simp add: Unmarshal_def typeFields_Observation_s lookup_Observation_s store_def)

text \<open>
  Claim C8, amended. An observation as the provider sends it, with dates that
  parse: when its value is \<open>"."\<close> the decoding succeeds and leaves the field
  \<open>Value\<close> as it was (there is no state for an absent value); for any other
  value the decoding fails with the error of \<open>ParseFloat\<close> when \<open>ParseFloat\<close>
  rejects the text, and stores the number otherwise.
\<close>

theorem Observation_value_decoding:
  assumes "timeParse lib ''2006-01-02'' a = Inr t1"
    and "timeParse lib ''2006-01-02'' b = Inr t2"
    and "timeParse lib ''2006-01-02'' c = Inr t3"
  shows "Observation_UnmarshalJSON lib ob
           (JObject [(''realtime_start'', JString a), (''realtime_end'', JString b),
                     (''date'', JString c), (''value'', JString v)]) =
         (if v = ''.'' then
            Inr (ob\<lparr>o_RealtimeStart := t1, o_RealtimeEnd := t2, o_Date := t3\<rparr>)
          else
            (case ParseFloat lib v of
               Inl e \<Rightarrow> Inl e
             | Inr f \<Rightarrow>
                 Inr (ob\<lparr>o_RealtimeStart := t1, o_RealtimeEnd := t2, o_Date := t3,
                           o_Value := f\<rparr>)))
         \<and> o_Value (ob\<lparr>o_RealtimeStart := t1, o_RealtimeEnd := t2, o_Date := t3\<rparr>) = o_Value ob"
  using assms
  by (simp add: Observation_UnmarshalJSON_def Unmarshal_observation getString_def
      unlessErr_simps
      split: sum.splits)

text \<open>
  An instance: in a new observation the value \<open>"."\<close> gives the number 0, and
  the value \<open>"n/a"\<close> is an error.
\<close>

theorem Observation_value_decoding_witness:
  "timeParse stdlib ''2006-01-02'' ''2024-02-29'' = Inr midnight
   \<and> Observation_UnmarshalJSON stdlib zeroObservation
         (JObject [(''realtime_start'', JString ''2024-02-29''),
                   (''realtime_end'', JString ''2024-02-29''),
                   (''date'', JString ''2024-02-29''), (''value'', JString ''.'')]) =
       Inr \<lparr>o_RealtimeStart = midnight, o_RealtimeEnd = midnight, o_Date = midnight,
            o_Value = 0\<rparr>
   \<and> Observation_UnmarshalJSON stdlib zeroObservation
         (JObject [(''realtime_start'', JString ''2024-02-29''),
                   (''realtime_end'', JString ''2024-02-29''),
                   (''date'', JString ''2024-02-29''), (''value'', JString ''n/a'')]) =
       Inl NumError"
proof -
  have date: "timeParse stdlib ''2006-01-02'' ''2024-02-29'' = Inr midnight"
    by code_simp
  have rejected: "ParseFloat stdlib ''n/a'' = Inl NumError"
    by code_simp
  show ?thesis
    using date
      Observation_value_decoding [OF date date date, of zeroObservation "''.''"]
      Observation_value_decoding [OF date date date, of zeroObservation "''n/a''"]
    by (simp add: rejected zeroObservation_def zeroTime_def)
qed

text \<open>
  The missing value is not told apart from a number: the values \<open>"."\<close> and
  \<open>"0"\<close> decode to the same observation, with the value 0.
\<close>

theorem Observation_missing_value_is_zero:
  "Observation_UnmarshalJSON stdlib zeroObservation (observationJSON ''2024-02-28'' ''.'') =
     Inr \<lparr>o_RealtimeStart = midnight, o_RealtimeEnd = midnight,
          o_Date = 63844675200000000000, o_Value = 0\<rparr>
   \<and> Observation_UnmarshalJSON stdlib zeroObservation (observationJSON ''2024-02-28'' ''0'') =
     Inr \<lparr>o_RealtimeStart = midnight, o_RealtimeEnd = midnight,
          o_Date = 63844675200000000000, o_Value = 0\<rparr>"
  by code_simp

section \<open>Properties of the construction\<close>









text \<open>
  When the provider cannot be reached for a configured series, \<open>getMeta\<close> returns
  a nil response with its error, and the construction panics on \<open>meta.Error\<close>.
\<close>

lemma NewFredCollector_unreachable:
  "NewFredCollector stdlib provider ''key'' [''GDP''] = Inl NilPointerDereference"
  by code_simp

section \<open>Properties of the round tripper\<close>

text \<open>
  Claim C6: when the wait on the rate limiter fails because the context of the
  request is cancelled or runs out of time, no call goes out for the request.
  \<open>RoundTrip\<close> does not do so, as it discards what \<open>Wait\<close> returns: after a
  wait that failed the request is handed to the wrapped round tripper all the
  same, and the response of that round tripper is returned.
\<close>

theorem RoundTrip_forwards_after_failed_wait:
  "failedWait
     \<lparr>url = ''https://api.stlouisfed.org/fred/series/observations'',
      query = [(''series_id'', ''DGS10''), (''api_key'', ''key''), (''file_type'', ''json'')]\<rparr> =
     Some WouldExceedDeadline
   \<and> RoundTrip failedWait provider
       \<lparr>url = ''https://api.stlouisfed.org/fred/series/observations'',
        query = [(''series_id'', ''DGS10''), (''api_key'', ''key''), (''file_type'', ''json'')]\<rparr> =
       \<lparr>returned = Inr (Some observationsBody),
        forwarded =
          [\<lparr>url = ''https://api.stlouisfed.org/fred/series/observations'',
            query = [(''series_id'', ''DGS10''), (''api_key'', ''key''),
                     (''file_type'', ''json'')]\<rparr>]\<rparr>"
  by code_simp

end
